theory Spec2Isabelle
  imports Complex_Main
begin

section \<open>Python values, exceptions and text\<close>

text \<open>
  The fields of the request body are whatever JSON the client sent. A float keeps what the
  code observes of it: the result of \<^verbatim>\<open>int()\<close> (none for inf and nan) and the text
  \<^verbatim>\<open>str()\<close> renders; an array or an object keeps its rendered text.
  Strings are byte strings; the operations on them are modelled on ASCII.
\<close>

datatype pyval =
    PNone
  | PBool bool
  | PInt int
  | PFloat "int option" string
  | PStr string
  | PList string
  | PDict string

datatype exn =
    AttributeError string
  | TypeError string
  | ValueError
  | OverflowError
  | KeyError string
  | BadRequest
  | IntegrityError
  | InterfaceError
  | OperationalError

definition exn_str :: "exn \<Rightarrow> string" where
  "exn_str e = (case e of
      AttributeError m \<Rightarrow> m
    | TypeError m \<Rightarrow> m
    | KeyError k \<Rightarrow> [CHR 0x27] @ k @ [CHR 0x27]
    | _ \<Rightarrow> [])"

definition type_name :: "pyval \<Rightarrow> string" where
  "type_name v = (case v of
      PNone \<Rightarrow> ''NoneType''
    | PBool _ \<Rightarrow> ''bool''
    | PInt _ \<Rightarrow> ''int''
    | PFloat _ _ \<Rightarrow> ''float''
    | PStr _ \<Rightarrow> ''str''
    | PList _ \<Rightarrow> ''list''
    | PDict _ \<Rightarrow> ''dict'')"

definition quoted :: "string \<Rightarrow> string" where
  "quoted s = [CHR 0x27] @ s @ [CHR 0x27]"

subsection \<open>Decimal rendering and f-string fields\<close>

definition digit_char :: "nat \<Rightarrow> char" where
  "digit_char n = ''0123456789'' ! n"

function show_nat :: "nat \<Rightarrow> string" where
  "show_nat n = (if n < 10 then [digit_char n] else show_nat (n div 10) @ [digit_char (n mod 10)])"
  by pat_completeness auto
termination
  by (relation "measure id") auto

declare show_nat.simps [simp del]

definition show_int :: "int \<Rightarrow> string" where
  "show_int i = (if i < 0 then CHR ''-'' # show_nat (nat (- i)) else show_nat (nat i))"

text \<open>The format spec \<^verbatim>\<open>:02d\<close>: zero padding to width two.\<close>

definition fmt_02d :: "int \<Rightarrow> string" where
  "fmt_02d i = (let s = show_int i in replicate (2 - length s) (CHR ''0'') @ s)"

text \<open>What \<^verbatim>\<open>f"{v}"\<close> renders.\<close>

definition py_str :: "pyval \<Rightarrow> string" where
  "py_str v = (case v of
      PNone \<Rightarrow> ''None''
    | PBool b \<Rightarrow> (if b then ''True'' else ''False'')
    | PInt i \<Rightarrow> show_int i
    | PFloat _ s \<Rightarrow> s
    | PStr s \<Rightarrow> s
    | PList s \<Rightarrow> s
    | PDict s \<Rightarrow> s)"

subsection \<open>\<^verbatim>\<open>str.upper\<close> and \<^verbatim>\<open>int()\<close>\<close>

definition upper_char :: "char \<Rightarrow> char" where
  "upper_char c =
     (case map_of (zip ''abcdefghijklmnopqrstuvwxyz'' ''ABCDEFGHIJKLMNOPQRSTUVWXYZ'') c of
        None \<Rightarrow> c
      | Some u \<Rightarrow> u)"

definition str_upper :: "string \<Rightarrow> string" where
  "str_upper s = map upper_char s"

definition py_upper :: "pyval \<Rightarrow> exn + string" where
  "py_upper v = (case v of
      PStr s \<Rightarrow> Inr (str_upper s)
    | _ \<Rightarrow> Inl (AttributeError (quoted (type_name v) @ '' object has no attribute '' @ quoted ''upper'')))"

definition is_space :: "char \<Rightarrow> bool" where
  "is_space c = (let n = (of_char c :: nat) in (9 \<le> n \<and> n \<le> 13) \<or> (28 \<le> n \<and> n \<le> 32))"

definition is_digit :: "char \<Rightarrow> bool" where
  "is_digit c = (let n = (of_char c :: nat) in 48 \<le> n \<and> n \<le> 57)"

definition digit_val :: "char \<Rightarrow> nat" where
  "digit_val c = of_char c - 48"

text \<open>Digits with single underscores between them, as \<^verbatim>\<open>int()\<close> accepts.\<close>

fun digits_val :: "string \<Rightarrow> nat \<Rightarrow> nat option" where
  "digits_val [] acc = Some acc"
| "digits_val (c # cs) acc =
     (if is_digit c then digits_val cs (acc * 10 + digit_val c)
      else if c = CHR ''_'' then
        (case cs of [] \<Rightarrow> None | d # _ \<Rightarrow> if is_digit d then digits_val cs acc else None)
      else None)"

definition parse_digits :: "string \<Rightarrow> nat option" where
  "parse_digits s = (case s of [] \<Rightarrow> None | c # _ \<Rightarrow> if is_digit c then digits_val s 0 else None)"

definition strip :: "string \<Rightarrow> string" where
  "strip s = rev (dropWhile is_space (rev (dropWhile is_space s)))"

definition int_of_str :: "string \<Rightarrow> int option" where
  "int_of_str s = (case strip s of
      [] \<Rightarrow> None
    | c # r \<Rightarrow>
        if c = CHR ''-'' then map_option (\<lambda>n. - int n) (parse_digits r)
        else if c = CHR ''+'' then map_option int (parse_digits r)
        else map_option int (parse_digits (c # r)))"

definition py_int :: "pyval \<Rightarrow> exn + int" where
  "py_int v = (case v of
      PBool b \<Rightarrow> Inr (if b then 1 else 0)
    | PInt i \<Rightarrow> Inr i
    | PFloat t _ \<Rightarrow> (case t of None \<Rightarrow> Inl OverflowError | Some i \<Rightarrow> Inr i)
    | PStr s \<Rightarrow> (case int_of_str s of None \<Rightarrow> Inl ValueError | Some i \<Rightarrow> Inr i)
    | _ \<Rightarrow> Inl (TypeError (''int() argument must be a string, a bytes-like object or a real number, not ''
                  @ quoted (type_name v))))"

subsection \<open>The random module\<close>

text \<open>
  The generator is a stream of raw draws; each call of the module takes the head.
  \<^verbatim>\<open>randint(a, b)\<close> is inclusive at both ends, \<^verbatim>\<open>random()\<close> is a multiple of
  \<open>2 ^ -53\<close> in \<open>[0, 1)\<close>, \<^verbatim>\<open>uniform(a, b)\<close> is \<^verbatim>\<open>a + (b - a) * random()\<close>.
  Decimal fractions are exact reals here, not doubles.
\<close>

type_synonym rng = "nat \<Rightarrow> nat"

definition draw :: "rng \<Rightarrow> nat \<times> rng" where
  "draw g = (g 0, \<lambda>i. g (Suc i))"

definition randint :: "int \<Rightarrow> int \<Rightarrow> rng \<Rightarrow> int \<times> rng" where
  "randint a b g = (let (r, g') = draw g in (a + int (r mod nat (b - a + 1)), g'))"

definition choice :: "'a list \<Rightarrow> rng \<Rightarrow> 'a \<times> rng" where
  "choice xs g = (let (r, g') = draw g in (xs ! (r mod length xs), g'))"

definition random :: "rng \<Rightarrow> real \<times> rng" where
  "random g = (let (r, g') = draw g in (real (r mod 2 ^ 53) / 2 ^ 53, g'))"

definition uniform :: "real \<Rightarrow> real \<Rightarrow> rng \<Rightarrow> real \<times> rng" where
  "uniform a b g = (let (u, g') = random g in (a + (b - a) * u, g'))"

section \<open>BaseScraper.generate_mock_data\<close>

definition case_types :: "string \<rightharpoonup> string" where
  "case_types = [
     ''civil'' \<mapsto> ''Civil Suit'',
     ''criminal'' \<mapsto> ''Criminal Case'',
     ''writ'' \<mapsto> ''Writ Petition'',
     ''appeal'' \<mapsto> ''Civil Appeal'',
     ''revision'' \<mapsto> ''Civil Revision'',
     ''bail'' \<mapsto> ''Bail Application'',
     ''pil'' \<mapsto> ''Public Interest Litigation'']"

text \<open>\<^verbatim>\<open>case_types.get(case_type, 'Civil Suit')\<close>: the key must hash; no key of the table
  equals a value that is not a string.\<close>

definition case_types_get :: "pyval \<Rightarrow> exn + string" where
  "case_types_get k = (case k of
      PStr s \<Rightarrow> Inr (case case_types s of None \<Rightarrow> ''Civil Suit'' | Some l \<Rightarrow> l)
    | PList _ \<Rightarrow> Inl (TypeError (''unhashable type: '' @ quoted ''list''))
    | PDict _ \<Rightarrow> Inl (TypeError (''unhashable type: '' @ quoted ''dict''))
    | _ \<Rightarrow> Inr ''Civil Suit'')"

definition petitioners :: "string list" where
  "petitioners = [
     ''Rajesh Kumar & Associates'',
     ''Priya Enterprises Pvt. Ltd.'',
     ''State of Delhi'',
     ''Municipal Corporation'',
     ''ABC Manufacturing Co.'',
     ''XYZ Corporation'',
     ''Local Authority'',
     ''Private Individual'']"

definition respondents :: "string list" where
  "respondents = [
     ''Union of India'',
     ''State Government'',
     ''XYZ Corporation'',
     ''Local Authority'',
     ''Private Individual'',
     ''Municipal Corporation'',
     ''State of Delhi'']"

definition judges :: "string list" where
  "judges = [
     ''Hon'ble Justice A.K. Sharma'',
     ''Hon'ble Justice P.R. Mehta'',
     ''Hon'ble Justice S.K. Singh'',
     ''Hon'ble Justice R.N. Patel'',
     ''Hon'ble Justice M.S. Kumar'',
     ''Hon'ble Justice Priya Singh'',
     ''Hon'ble Justice R.K. Gupta'']"

definition order_descriptions :: "string list" where
  "order_descriptions = [
     ''Notice issued to respondents. Matter adjourned to next date of hearing.'',
     ''Counter affidavit filed by respondents. Rejoinder affidavit to be filed within two weeks.'',
     ''Interim relief granted. Respondents restrained from taking any coercive action.'',
     ''Matter heard at length. Judgment reserved for pronouncement.'',
     ''Petition allowed. Respondents directed to comply with the directions within four weeks.'',
     ''Matter disposed of in terms of the settlement reached between parties.'',
     ''Interim application disposed of. Main matter to be listed for final hearing.'',
     ''Notice of motion disposed of. Main petition to be heard on merits.'',
     ''Bail application allowed. Petitioner directed to furnish surety bonds.'',
     ''Revision petition dismissed. Lower court order upheld.'',
     ''Appeal admitted. Stay granted on the impugned order.'',
     ''Writ petition disposed of with directions to the authorities.'']"

text \<open>The case-number label; the first two branches and the last can raise.\<close>

definition case_num_of :: "pyval \<Rightarrow> pyval \<Rightarrow> int \<Rightarrow> string \<Rightarrow> exn + string" where
  "case_num_of case_type case_number filing_year court_name =
     (if court_name = ''delhi-high'' then
        (case case_types_get case_type of
           Inl e \<Rightarrow> Inl e
         | Inr l \<Rightarrow> Inr (l @ '' '' @ py_str case_number @ ''/'' @ show_int filing_year))
      else if court_name = ''supreme'' then
        Inr (''Civil Appeal No. '' @ py_str case_number @ '' of '' @ show_int filing_year)
      else if court_name = ''bombay-high'' then
        Inr (''Writ Petition No. '' @ py_str case_number @ '' of '' @ show_int filing_year)
      else
        (case py_upper case_type of
           Inl e \<Rightarrow> Inl e
         | Inr u \<Rightarrow> Inr (u @ ''/'' @ py_str case_number @ ''/'' @ show_int filing_year)))"

text \<open>An order payload is a dict with the two keys \<^verbatim>\<open>date\<close> and \<^verbatim>\<open>description\<close>.\<close>

record order_payload =
  o_date :: string
  o_description :: string

type_synonym case_payload = "string \<rightharpoonup> string"

definition generate_mock_data ::
  "pyval \<Rightarrow> pyval \<Rightarrow> int \<Rightarrow> string \<Rightarrow> rng \<Rightarrow> exn + (case_payload \<times> order_payload list \<times> rng)" where
  "generate_mock_data case_type case_number filing_year court_name g =
     (case case_num_of case_type case_number filing_year court_name of
        Inl e \<Rightarrow> Inl e
      | Inr case_no \<Rightarrow>
          let (petitioner, g1) = choice petitioners g;
              (respondent, g2) = choice respondents g1;
              (f_month, g3) = randint 1 12 g2;
              (f_day, g4) = randint 1 28 g3;
              (h_month, g5) = randint 8 12 g4;
              (h_day, g6) = randint 1 28 g5;
              (status, g7) = choice [''pending'', ''disposed''] g6;
              (judge, g8) = choice judges g7;
              filing_date = show_int filing_year @ ''-'' @ fmt_02d f_month @ ''-'' @ fmt_02d f_day;
              case_data = [
                ''case_number'' \<mapsto> case_no,
                ''petitioner'' \<mapsto> petitioner,
                ''respondent'' \<mapsto> respondent,
                ''filing_date'' \<mapsto> filing_date,
                ''next_hearing'' \<mapsto> ''2025-'' @ fmt_02d h_month @ ''-'' @ fmt_02d h_day,
                ''status'' \<mapsto> status,
                ''judge'' \<mapsto> judge];
              (o_day, g9) = randint 1 30 g8;
              (descr, g10) = choice order_descriptions g9;
              orders = [
                \<lparr>o_date = ''2025-07-'' @ fmt_02d o_day, o_description = descr\<rparr>,
                \<lparr>o_date = filing_date, o_description = ''Petition filed. Urgent hearing requested.''\<rparr>]
          in Inr (case_data, orders, g10))"

section \<open>The court scrapers\<close>

text \<open>
  The four scraper classes differ in the court name they pass on and in the bounds of the
  simulated delay. The sleep takes one draw from the generator; the measured response time,
  \<^verbatim>\<open>int((time.time() - start_time) * 1000)\<close>, is an input.
\<close>

datatype scraper =
    DelhiHighCourtScraper
  | SupremeCourtScraper
  | BombayHighCourtScraper
  | ECourtsScraper string

definition scraper_court :: "scraper \<Rightarrow> string" where
  "scraper_court sc = (case sc of
      DelhiHighCourtScraper \<Rightarrow> ''delhi-high''
    | SupremeCourtScraper \<Rightarrow> ''supreme''
    | BombayHighCourtScraper \<Rightarrow> ''bombay-high''
    | ECourtsScraper district \<Rightarrow> district @ ''-district'')"

definition sleep_time :: "scraper \<Rightarrow> rng \<Rightarrow> real \<times> rng" where
  "sleep_time sc g = (case sc of
      DelhiHighCourtScraper \<Rightarrow> (let (u, g') = uniform 0.5 1.5 g in (2 + u, g'))
    | SupremeCourtScraper \<Rightarrow> (let (u, g') = uniform 0.5 1.0 g in (1.5 + u, g'))
    | BombayHighCourtScraper \<Rightarrow> (let (u, g') = uniform 0.5 1.2 g in (1.8 + u, g'))
    | ECourtsScraper _ \<Rightarrow> (let (u, g') = uniform 0.5 1.0 g in (1 + u, g')))"

record prediction =
  favorable_probability :: real
  estimated_disposal_days :: int
  confidence :: real
  key_factors :: "string list"

record result =
  r_case_data :: case_payload
  r_orders :: "order_payload list"
  r_response_time_ms :: int
  r_success :: bool
  r_ai_prediction :: "prediction option"

text \<open>Returns the pair \<^verbatim>\<open>(result, error)\<close> of the source, and the generator.\<close>

definition scrape_case_data ::
  "scraper \<Rightarrow> pyval \<Rightarrow> pyval \<Rightarrow> int \<Rightarrow> int \<Rightarrow> rng \<Rightarrow> (result option \<times> string option) \<times> rng" where
  "scrape_case_data sc case_type case_number filing_year elapsed g =
     (let (_, g1) = sleep_time sc g in
      case generate_mock_data case_type case_number filing_year (scraper_court sc) g1 of
        Inl e \<Rightarrow> ((None, Some (exn_str e)), g1)
      | Inr (case_data, orders, g2) \<Rightarrow>
          ((Some \<lparr>r_case_data = case_data, r_orders = orders, r_response_time_ms = elapsed,
                   r_success = True, r_ai_prediction = None\<rparr>, None), g2))"

section \<open>Dates\<close>

text \<open>
  A date is year, month, day. \<^verbatim>\<open>datetime.strptime(s, '%Y-%m-%d').date()\<close> accepts
  exactly four digits for the year, a month \<^verbatim>\<open>1[0-2]|0[1-9]|[1-9]\<close> and a day
  \<^verbatim>\<open>3[01]|[12]\d|0[1-9]|[1-9]| [1-9]\<close>, nothing before or after, and then checks the
  date against the calendar (years from 1).
\<close>

type_synonym date = "nat \<times> nat \<times> nat"

definition is_leap :: "nat \<Rightarrow> bool" where
  "is_leap y = (y mod 4 = 0 \<and> (y mod 100 \<noteq> 0 \<or> y mod 400 = 0))"

definition DAYS_IN_MONTH :: "nat list" where
  "DAYS_IN_MONTH = [0, 31, 28, 31, 30, 31, 30, 31, 31, 30, 31, 30, 31]"

definition days_in_month :: "nat \<Rightarrow> nat \<Rightarrow> nat" where
  "days_in_month y m = (if m = 2 \<and> is_leap y then 29 else DAYS_IN_MONTH ! m)"

definition month_token :: "string \<Rightarrow> nat option" where
  "month_token t = (case t of
      [a] \<Rightarrow> if is_digit a \<and> a \<noteq> CHR ''0'' then Some (digit_val a) else None
    | [a, b] \<Rightarrow>
        if (a = CHR ''1'' \<and> b \<in> set ''012'') \<or> (a = CHR ''0'' \<and> is_digit b \<and> b \<noteq> CHR ''0'')
        then Some (10 * digit_val a + digit_val b) else None
    | _ \<Rightarrow> None)"

definition day_token :: "string \<Rightarrow> nat option" where
  "day_token t = (case t of
      [a] \<Rightarrow> if is_digit a \<and> a \<noteq> CHR ''0'' then Some (digit_val a) else None
    | [a, b] \<Rightarrow>
        if (a = CHR ''3'' \<and> b \<in> set ''01'') \<or> (a \<in> set ''12'' \<and> is_digit b)
           \<or> (a = CHR ''0'' \<and> is_digit b \<and> b \<noteq> CHR ''0'')
        then Some (10 * digit_val a + digit_val b)
        else if a = CHR '' '' \<and> is_digit b \<and> b \<noteq> CHR ''0'' then Some (digit_val b)
        else None
    | _ \<Rightarrow> None)"

definition strptime_ymd :: "string \<Rightarrow> exn + date" where
  "strptime_ymd s = (case s of
      y1 # y2 # y3 # y4 # dash # rest \<Rightarrow>
        if is_digit y1 \<and> is_digit y2 \<and> is_digit y3 \<and> is_digit y4 \<and> dash = CHR ''-'' then
          (case dropWhile (\<lambda>c. c \<noteq> CHR ''-'') rest of
             [] \<Rightarrow> Inl ValueError
           | _ # dt \<Rightarrow>
               (case (month_token (takeWhile (\<lambda>c. c \<noteq> CHR ''-'') rest), day_token dt) of
                  (Some m, Some d) \<Rightarrow>
                    let y = 1000 * digit_val y1 + 100 * digit_val y2 + 10 * digit_val y3 + digit_val y4
                    in if 1 \<le> y \<and> d \<le> days_in_month y m then Inr (y, m, d) else Inl ValueError
                | _ \<Rightarrow> Inl ValueError))
        else Inl ValueError
    | _ \<Rightarrow> Inl ValueError)"

definition date_le :: "date \<Rightarrow> date \<Rightarrow> bool" where
  "date_le a b = (case (a, b) of ((y1, m1, d1), (y2, m2, d2)) \<Rightarrow>
     y1 < y2 \<or> (y1 = y2 \<and> (m1 < m2 \<or> (m1 = m2 \<and> d1 \<le> d2))))"

text \<open>A datetime is a date and the microsecond of the day.\<close>

type_synonym datetime = "date \<times> nat"

section \<open>Database models and the session\<close>

text \<open>
  The three tables. The primary key and a defaulted column are \<^verbatim>\<open>None\<close> on a new
  object and set by its INSERT. The text columns of a query row hold what the client sent
  (SQLite stores any scalar it is given); \<^verbatim>\<open>parsed_data\<close> holds the result that
  \<^verbatim>\<open>json.dumps\<close> serialises.
\<close>

record CaseQuery =
  q_id :: "nat option"
  q_court_name :: pyval
  q_case_type :: pyval
  q_case_number :: pyval
  q_filing_year :: int
  q_query_timestamp :: "datetime option"
  q_success :: bool
  q_response_time_ms :: "int option"
  q_raw_response :: "string option"
  q_parsed_data :: "result option"

record CaseData =
  c_id :: "nat option"
  c_case_number :: string
  c_court_name :: pyval
  c_petitioner :: "string option"
  c_respondent :: "string option"
  c_filing_date :: "date option"
  c_next_hearing_date :: "date option"
  c_case_status :: "string option"
  c_judge_name :: "string option"
  c_last_updated :: "datetime option"

record CaseOrder =
  co_id :: "nat option"
  co_case_id :: "nat option"
  co_order_date :: "date option"
  co_order_description :: "string option"
  co_pdf_link :: "string option"
  co_judge_name :: "string option"

record db =
  queries :: "CaseQuery list"
  cases :: "CaseData list"
  orders :: "CaseOrder list"

datatype row = QueryRow CaseQuery | CaseRow CaseData | OrderRow CaseOrder

fun max_id :: "nat option list \<Rightarrow> nat" where
  "max_id [] = 0"
| "max_id (i # ids) = max (case i of None \<Rightarrow> 0 | Some n \<Rightarrow> n) (max_id ids)"

definition next_id :: "nat option list \<Rightarrow> nat option" where
  "next_id ids = Some (Suc (max_id ids))"

definition bindable :: "pyval \<Rightarrow> bool" where
  "bindable v = (case v of PList _ \<Rightarrow> False | PDict _ \<Rightarrow> False | _ \<Rightarrow> True)"

definition or_default :: "'a option \<Rightarrow> 'a \<Rightarrow> 'a option" where
  "or_default v d = (case v of None \<Rightarrow> Some d | Some x \<Rightarrow> Some x)"

text \<open>
  One INSERT, with the constraints the models declare: \<^verbatim>\<open>nullable=False\<close>,
  \<^verbatim>\<open>unique=True\<close>, and that the driver can bind the value.
\<close>

definition insert_row :: "datetime \<Rightarrow> row \<Rightarrow> db \<Rightarrow> exn + db" where
  "insert_row now r d = (case r of
      QueryRow q \<Rightarrow>
        if \<not> (bindable (q_court_name q) \<and> bindable (q_case_type q) \<and> bindable (q_case_number q))
        then Inl InterfaceError
        else if q_court_name q = PNone \<or> q_case_type q = PNone \<or> q_case_number q = PNone
        then Inl IntegrityError
        else Inr (d\<lparr>queries := queries d @
               [q\<lparr>q_id := next_id (map q_id (queries d)),
                  q_query_timestamp := or_default (q_query_timestamp q) now\<rparr>]\<rparr>)
    | CaseRow c \<Rightarrow>
        if \<not> bindable (c_court_name c) then Inl InterfaceError
        else if c_court_name c = PNone then Inl IntegrityError
        else if c_case_number c \<in> set (map c_case_number (cases d)) then Inl IntegrityError
        else Inr (d\<lparr>cases := cases d @
               [c\<lparr>c_id := next_id (map c_id (cases d)),
                  c_last_updated := or_default (c_last_updated c) now\<rparr>]\<rparr>)
    | OrderRow ord \<Rightarrow>
        if co_case_id ord = None \<or> co_order_date ord = None then Inl IntegrityError
        else Inr (d\<lparr>orders := orders d @ [ord\<lparr>co_id := next_id (map co_id (orders d))\<rparr>]\<rparr>))"

fun insert_rows :: "datetime \<Rightarrow> row list \<Rightarrow> db \<Rightarrow> exn + db" where
  "insert_rows now [] d = Inr d"
| "insert_rows now (r # rs) d =
     (case insert_row now r d of Inl e \<Rightarrow> Inl e | Inr d' \<Rightarrow> insert_rows now rs d')"

text \<open>
  The session: what is committed, what the open transaction sees, and the objects added
  but not yet written. A flush writes the pending objects into the transaction; a commit
  flushes and makes the transaction the committed state. Either fails as a whole when a
  constraint is violated or the storage refuses (\<open>ok\<close> is false).
\<close>

record session =
  stored :: db
  txn :: db
  pending :: "row list"

definition session_begin :: "db \<Rightarrow> session" where
  "session_begin d = \<lparr>stored = d, txn = d, pending = []\<rparr>"

definition session_add :: "row \<Rightarrow> session \<Rightarrow> session" where
  "session_add r s = s\<lparr>pending := pending s @ [r]\<rparr>"

definition session_flush :: "bool \<Rightarrow> datetime \<Rightarrow> session \<Rightarrow> exn + session" where
  "session_flush ok now s =
     (if \<not> ok then Inl OperationalError
      else case insert_rows now (pending s) (txn s) of
             Inl e \<Rightarrow> Inl e
           | Inr d \<Rightarrow> Inr (s\<lparr>txn := d, pending := []\<rparr>))"

definition session_commit :: "bool \<Rightarrow> datetime \<Rightarrow> session \<Rightarrow> exn + session" where
  "session_commit ok now s =
     (if \<not> ok then Inl OperationalError
      else case insert_rows now (pending s) (txn s) of
             Inl e \<Rightarrow> Inl e
           | Inr d \<Rightarrow> Inr \<lparr>stored = d, txn = d, pending = []\<rparr>)"

text \<open>\<^verbatim>\<open>CaseData.query.filter_by(case_number=...).first()\<close>; nothing is pending when the
  handler asks, so the autoflush writes nothing.\<close>

definition query_first_case :: "string \<Rightarrow> session \<Rightarrow> CaseData option" where
  "query_first_case case_no s = find (\<lambda>c. c_case_number c = case_no) (cases (txn s))"

section \<open>CaseAnalytics\<close>

subsection \<open>get_dashboard_stats\<close>

text \<open>
  \<^verbatim>\<open>CaseQuery.query_timestamp >= today\<close> compares the stored timestamp with the start of
  the day \<open>today\<close>. SQL's AVG skips NULLs and is NULL over no value. \<^verbatim>\<open>round(x, 1)\<close>
  rounds to the nearest tenth, a tie to the even one; \<^verbatim>\<open>int(x)\<close> cuts the fraction off.
  Quotients are exact reals here, not doubles.
\<close>

record stats =
  total_searches :: nat
  success_rate :: real
  avg_response_time :: int

definition since :: "date \<Rightarrow> CaseQuery \<Rightarrow> bool" where
  "since today q = (case q_query_timestamp q of None \<Rightarrow> False | Some (d, _) \<Rightarrow> date_le today d)"

definition sql_avg :: "int option list \<Rightarrow> real option" where
  "sql_avg vs = (let xs = map the (filter (\<lambda>v. v \<noteq> None) vs)
     in if xs = [] then None else Some (real_of_int (sum_list xs) / real (length xs)))"

definition py_round1 :: "real \<Rightarrow> real" where
  "py_round1 x = (let y = x * 10; f = \<lfloor>y\<rfloor>; r = y - of_int f
     in if r < 1 / 2 then of_int f / 10
        else if 1 / 2 < r then of_int (f + 1) / 10
        else if even f then of_int f / 10 else of_int (f + 1) / 10)"

definition py_trunc :: "real \<Rightarrow> int" where
  "py_trunc x = (if x < 0 then \<lceil>x\<rceil> else \<lfloor>x\<rfloor>)"

definition get_dashboard_stats :: "date \<Rightarrow> db \<Rightarrow> stats" where
  "get_dashboard_stats today d =
     (let total = length (filter (since today) (queries d));
          successful = length (filter (\<lambda>q. since today q \<and> q_success q) (queries d));
          rate = (if total > 0 then real successful / real total * 100 else 0);
          avg = (case sql_avg (map q_response_time_ms
                        (filter (\<lambda>q. since today q \<and> q_success q) (queries d))) of
                   None \<Rightarrow> 0 | Some a \<Rightarrow> a)
      in \<lparr>total_searches = total, success_rate = py_round1 rate, avg_response_time = py_trunc avg\<rparr>)"

subsection \<open>get_case_trends\<close>

text \<open>
  Date arithmetic goes through the day number, as in the datetime module
  (\<^verbatim>\<open>_ymd2ord\<close>, \<^verbatim>\<open>_ord2ymd\<close>); a date before year 1 is an OverflowError.
\<close>

definition DAYS_BEFORE_MONTH :: "nat list" where
  "DAYS_BEFORE_MONTH = [0, 0, 31, 59, 90, 120, 151, 181, 212, 243, 273, 304, 334]"

definition days_before_year :: "nat \<Rightarrow> nat" where
  "days_before_year year = (let y = year - 1 in y * 365 + y div 4 - y div 100 + y div 400)"

definition days_before_month :: "nat \<Rightarrow> nat \<Rightarrow> nat" where
  "days_before_month year month =
     DAYS_BEFORE_MONTH ! month + (if month > 2 \<and> is_leap year then 1 else 0)"

definition ymd2ord :: "date \<Rightarrow> nat" where
  "ymd2ord dt = (case dt of (year, month, day) \<Rightarrow>
     days_before_year year + days_before_month year month + day)"

definition ord2ymd :: "nat \<Rightarrow> date" where
  "ord2ymd ordinal =
     (let n = ordinal - 1;
          n400 = n div 146097; n = n mod 146097;
          year = n400 * 400 + 1;
          n100 = n div 36524; n = n mod 36524;
          n4 = n div 1461; n = n mod 1461;
          n1 = n div 365; n = n mod 365;
          year = year + n100 * 100 + n4 * 4 + n1
      in if n1 = 4 \<or> n100 = 4 then (year - 1, 12, 31)
         else
           let leapyear = (n1 = 3 \<and> (n4 \<noteq> 24 \<or> n100 = 3));
               month = (n + 50) div 32;
               preceding = DAYS_BEFORE_MONTH ! month + (if month > 2 \<and> leapyear then 1 else 0)
           in if preceding > n then
                (let month' = month - 1;
                     preceding' = preceding -
                       (DAYS_IN_MONTH ! month' + (if month' = 2 \<and> leapyear then 1 else 0))
                 in (year, month', n - preceding' + 1))
              else (year, month, n - preceding + 1))"

definition minus_days :: "date \<Rightarrow> nat \<Rightarrow> exn + date" where
  "minus_days dt k = (let n = ymd2ord dt in if n \<le> k then Inl OverflowError else Inr (ord2ymd (n - k)))"

text \<open>\<^verbatim>\<open>strftime('%Y-%m')\<close>, for years of four digits.\<close>

definition strftime_ym :: "date \<Rightarrow> string" where
  "strftime_ym dt = (case dt of (year, month, day) \<Rightarrow>
     show_nat year @ ''-'' @ fmt_02d (int month))"

record trend =
  t_month :: string
  t_count :: int

fun trends_loop :: "date \<Rightarrow> nat list \<Rightarrow> trend list \<Rightarrow> rng \<Rightarrow> exn + (trend list \<times> rng)" where
  "trends_loop current_date [] trends g = Inr (trends, g)"
| "trends_loop current_date (i # rest) trends g =
     (case minus_days current_date (30 * i) of
        Inl e \<Rightarrow> Inl e
      | Inr month_date \<Rightarrow>
          let month_str = strftime_ym month_date;
              (c, g') = randint 50 200 g
          in trends_loop current_date rest (trends @ [\<lparr>t_month = month_str, t_count = c\<rparr>]) g')"

definition get_case_trends :: "date \<Rightarrow> rng \<Rightarrow> exn + (trend list \<times> rng)" where
  "get_case_trends current_date g =
     (case trends_loop current_date [0..<6] [] g of
        Inl e \<Rightarrow> Inl e
      | Inr (trends, g') \<Rightarrow> Inr (rev trends, g'))"

subsection \<open>predict_case_outcome\<close>

definition predict_case_outcome :: "case_payload \<Rightarrow> rng \<Rightarrow> prediction \<times> rng" where
  "predict_case_outcome case_data g =
     (let score = (0.5 :: real);
          case_age_days = (100 :: int);
          case_type = (case case_data ''case_type'' of None \<Rightarrow> ''civil'' | Some t \<Rightarrow> t);
          (court_load, g1) = randint 50 200 g;
          score = (if case_age_days > 365 then score + 0.2 else score);
          score = (if case_type \<in> set [''bail'', ''writ''] then score + 0.1 else score);
          score = (if court_load < 100 then score + 0.1 else score);
          (days, g2) = randint 30 180 g1;
          (conf, g3) = uniform 0.7 0.9 g2
      in (\<lparr>favorable_probability = min score 0.95,
            estimated_disposal_days = days,
            confidence = conf,
            key_factors = [''Case age'', ''Court efficiency'', ''Case type complexity'']\<rparr>, g3))"

section \<open>The search endpoint\<close>

text \<open>
  What a request does not determine is an input: the generator, the measured response
  time, the clock, and whether the storage carries out the flush and the commit.
  The body is \<^verbatim>\<open>None\<close> when \<^verbatim>\<open>request.get_json()\<close> raises or yields something that
  is not an object.
\<close>

record env =
  e_rng :: rng
  e_elapsed_ms :: int
  e_utcnow :: datetime
  e_flush_ok :: bool
  e_commit_ok :: bool

type_synonym body = "(string \<rightharpoonup> pyval) option"

datatype response =
    JsonOk (json_result: result)
  | JsonError (status: nat) (message: string)

definition dict_get :: "(string \<rightharpoonup> pyval) \<Rightarrow> string \<Rightarrow> pyval" where
  "dict_get data k = (case data k of None \<Rightarrow> PNone | Some v \<Rightarrow> v)"

definition getitem :: "case_payload \<Rightarrow> string \<Rightarrow> exn + string" where
  "getitem data k = (case data k of None \<Rightarrow> Inl (KeyError k) | Some v \<Rightarrow> Inr v)"

definition bind_exn :: "exn + 'a \<Rightarrow> ('a \<Rightarrow> exn + 'b) \<Rightarrow> exn + 'b" where
  "bind_exn m f = (case m of Inl e \<Rightarrow> Inl e | Inr x \<Rightarrow> f x)"

text \<open>The \<^verbatim>\<open>if\<close>/\<^verbatim>\<open>elif\<close> chain that picks the scraper; the district is set on the shared
  eCourts scraper.\<close>

definition choose_scraper :: "pyval \<Rightarrow> scraper option" where
  "choose_scraper court =
     (if court = PStr ''delhi-high'' then Some DelhiHighCourtScraper
      else if court = PStr ''supreme'' then Some SupremeCourtScraper
      else if court = PStr ''bombay-high'' then Some BombayHighCourtScraper
      else if court \<in> set [PStr ''delhi-district'', PStr ''faridabad-district''] then
        (let district = (if court = PStr ''delhi-district'' then ''delhi'' else ''faridabad'')
         in Some (ECourtsScraper district))
      else None)"

text \<open>\<^verbatim>\<open>if error:\<close> holds for a string that is not empty.\<close>

definition truthy :: "string option \<Rightarrow> bool" where
  "truthy v = (case v of None \<Rightarrow> False | Some m \<Rightarrow> m \<noteq> [])"

fun save_orders :: "nat option \<Rightarrow> order_payload list \<Rightarrow> session \<Rightarrow> exn + session" where
  "save_orders case_id [] s = Inr s"
| "save_orders case_id (ord # rest) s =
     (case strptime_ymd (o_date ord) of
        Inl e \<Rightarrow> Inl e
      | Inr dt \<Rightarrow>
          save_orders case_id rest
            (session_add (OrderRow \<lparr>co_id = None, co_case_id = case_id, co_order_date = Some dt,
               co_order_description = Some (o_description ord), co_pdf_link = None,
               co_judge_name = None\<rparr>) s))"

text \<open>The block \<^verbatim>\<open>if not existing_case:\<close>; \<open>c_id\<close> of the last row of the table is
  \<^verbatim>\<open>new_case.id\<close> after the flush.\<close>

definition save_case :: "env \<Rightarrow> pyval \<Rightarrow> result \<Rightarrow> string \<Rightarrow> session \<Rightarrow> exn + session" where
  "save_case e court res case_no s =
     (let case_data = r_case_data res in
      bind_exn (bind_exn (getitem case_data ''filing_date'') strptime_ymd) (\<lambda>filing_date.
      bind_exn (bind_exn (getitem case_data ''next_hearing'') strptime_ymd) (\<lambda>next_hearing.
        let new_case = \<lparr>c_id = None, c_case_number = case_no, c_court_name = court,
              c_petitioner = case_data ''petitioner'', c_respondent = case_data ''respondent'',
              c_filing_date = Some filing_date, c_next_hearing_date = Some next_hearing,
              c_case_status = case_data ''status'', c_judge_name = case_data ''judge'',
              c_last_updated = None\<rparr>
        in bind_exn (session_flush (e_flush_ok e) (e_utcnow e) (session_add (CaseRow new_case) s))
             (\<lambda>s1. save_orders (c_id (last (cases (txn s1)))) (r_orders res) s1))))"

text \<open>\<^verbatim>\<open>CaseQuery(court_name=court, case_type=case_type, ...)\<close>, built before the dispatch.\<close>

definition new_query :: "pyval \<Rightarrow> pyval \<Rightarrow> pyval \<Rightarrow> int \<Rightarrow> CaseQuery" where
  "new_query court case_type case_number filing_year =
     \<lparr>q_id = None, q_court_name = court, q_case_type = case_type,
      q_case_number = case_number, q_filing_year = filing_year,
      q_query_timestamp = None, q_success = False, q_response_time_ms = None,
      q_raw_response = None, q_parsed_data = None\<rparr>"

text \<open>The block \<^verbatim>\<open>if error:\<close>.\<close>

definition log_failure ::
  "env \<Rightarrow> CaseQuery \<Rightarrow> string option \<Rightarrow> session \<Rightarrow> exn + (response \<times> session)" where
  "log_failure e query_record error s =
     bind_exn (session_commit (e_commit_ok e) (e_utcnow e)
        (session_add (QueryRow (query_record\<lparr>q_success := False, q_raw_response := error\<rparr>)) s))
       (\<lambda>s'. Inr (JsonError 500 (the error), s'))"

text \<open>From \<^verbatim>\<open># Update query record\<close> to \<^verbatim>\<open>return jsonify(result)\<close>.\<close>

definition save_result ::
  "env \<Rightarrow> pyval \<Rightarrow> CaseQuery \<Rightarrow> result \<Rightarrow> rng \<Rightarrow> session \<Rightarrow> exn + (response \<times> session)" where
  "save_result e court query_record r g s =
     (let query_record = query_record\<lparr>q_success := True,
            q_response_time_ms := Some (r_response_time_ms r),
            q_parsed_data := Some r\<rparr>;
          case_data = r_case_data r
      in bind_exn (getitem case_data ''case_number'') (\<lambda>case_no.
         bind_exn (case query_first_case case_no s of
                     None \<Rightarrow> save_case e court r case_no s
                   | Some existing_case \<Rightarrow> Inr s) (\<lambda>s1.
         bind_exn (session_commit (e_commit_ok e) (e_utcnow e)
                     (session_add (QueryRow query_record) s1)) (\<lambda>s2.
           let (prediction, g') = predict_case_outcome case_data g
           in Inr (JsonOk (r\<lparr>r_ai_prediction := Some prediction\<rparr>), s2)))))"

definition search_try :: "env \<Rightarrow> body \<Rightarrow> session \<Rightarrow> exn + (response \<times> session)" where
  "search_try e body s = (case body of
      None \<Rightarrow> Inl BadRequest
    | Some data \<Rightarrow>
        let court = dict_get data ''court'';
            case_type = dict_get data ''case_type'';
            case_number = dict_get data ''case_number''
        in bind_exn (py_int (dict_get data ''filing_year'')) (\<lambda>filing_year.
          let query_record = new_query court case_type case_number filing_year
          in case choose_scraper court of
               None \<Rightarrow> Inr (JsonError 400 ''Unsupported court selected'', s)
             | Some sc \<Rightarrow>
                 let ((res, error), g) =
                       scrape_case_data sc case_type case_number filing_year (e_elapsed_ms e) (e_rng e)
                 in if truthy error then log_failure e query_record error s
                    else (case res of
                        None \<Rightarrow> Inl (TypeError (quoted ''NoneType'' @ '' object is not subscriptable''))
                      | Some r \<Rightarrow> save_result e court query_record r g s)))"

text \<open>
  The handler: an exception ends in the \<^verbatim>\<open>except\<close> branch, which logs it and answers
  500; the session is dropped at the end of the request, so only what was committed stays.
  The result is the response, the database after the request, and the exception logged.
\<close>

definition search_case :: "env \<Rightarrow> body \<Rightarrow> db \<Rightarrow> response \<times> db \<times> exn option" where
  "search_case e body d = (case search_try e body (session_begin d) of
      Inl ex \<Rightarrow> (JsonError 500 ''Internal server error'', d, Some ex)
    | Inr (resp, s) \<Rightarrow> (resp, stored s, None))"

section \<open>Properties\<close>

subsection \<open>The random module stays in range\<close>

lemma randint_range: "a \<le> b \<Longrightarrow> a \<le> fst (randint a b g) \<and> fst (randint a b g) \<le> b"
proof -
  assume ab: "a \<le> b"
  have "g 0 mod nat (b - a + 1) < nat (b - a + 1)" using ab by (intro mod_less_divisor) simp
  then have "int (g 0 mod nat (b - a + 1)) < int (nat (b - a + 1))" by (simp only: of_nat_less_iff)
  moreover have "int (nat (b - a + 1)) = b - a + 1" using ab by simp
  ultimately have "int (g 0 mod nat (b - a + 1)) \<le> b - a" by linarith
  then show ?thesis by (simp add: randint_def draw_def)
qed

lemma random_range: "0 \<le> fst (random g) \<and> fst (random g) \<le> 1"
proof -
  define p :: nat where "p = 2 ^ 53"
  have p0: "0 < p" by (simp add: p_def)
  have rp: "(2 :: real) ^ 53 = real p" by (simp add: p_def)
  have "g 0 mod p \<le> p" using mod_less_divisor [OF p0, of "g 0"] by simp
  then have "real (g 0 mod p) \<le> real p" by (simp only: of_nat_le_iff)
  then have "real (g 0 mod p) / real p \<le> 1" using p0 by (simp add: divide_le_eq)
  moreover have "0 \<le> real (g 0 mod p) / real p" by simp
  moreover have "fst (random g) = real (g 0 mod p) / real p"
    unfolding random_def draw_def Let_def split_def fst_conv rp p_def [symmetric] ..
  ultimately show ?thesis by simp
qed

lemma uniform_range: "a \<le> b \<Longrightarrow> a \<le> fst (uniform a b g) \<and> fst (uniform a b g) \<le> b"
proof -
  assume ab: "a \<le> b"
  define u where "u = fst (random g)"
  have u: "0 \<le> u" "u \<le> 1" using random_range [of g] by (simp_all add: u_def)
  have f: "fst (uniform a b g) = a + (b - a) * u"
    by (simp add: uniform_def u_def split_def Let_def)
  have "(b - a) * u \<le> (b - a) * 1" using ab u by (intro mult_left_mono) auto
  moreover have "0 \<le> (b - a) * u" using ab u by simp
  ultimately show ?thesis unfolding f by simp
qed

subsection \<open>The outcome prediction\<close>

text \<open>
  C7. For every case payload and generator, \<open>predict_case_outcome\<close> returns
  \<open>favorable_probability = min score 0.95\<close>, where the score starts at 0.5, gains 0.2 if
  the case-age constant (100) exceeds 365, 0.1 if the case type is bail or writ, and 0.1 if
  the court load drawn is below 100; so the probability is at most 0.95, the estimated
  disposal days lie in [30, 180], the confidence lies in [0.7, 0.9], and the three factor
  labels are always the same.
\<close>

theorem predict_case_outcome_spec:
  "favorable_probability (fst (predict_case_outcome case_data g)) =
     min (0.5 + (if (100 :: int) > 365 then 0.2 else 0)
              + (if (case case_data ''case_type'' of None \<Rightarrow> ''civil'' | Some t \<Rightarrow> t) \<in> {''bail'', ''writ''}
                 then 0.1 else 0)
              + (if fst (randint 50 200 g) < 100 then 0.1 else 0)) 0.95
   \<and> favorable_probability (fst (predict_case_outcome case_data g)) \<le> 0.95
   \<and> 30 \<le> estimated_disposal_days (fst (predict_case_outcome case_data g))
   \<and> estimated_disposal_days (fst (predict_case_outcome case_data g)) \<le> 180
   \<and> 0.7 \<le> confidence (fst (predict_case_outcome case_data g))
   \<and> confidence (fst (predict_case_outcome case_data g)) \<le> 0.9
   \<and> key_factors (fst (predict_case_outcome case_data g))
       = [''Case age'', ''Court efficiency'', ''Case type complexity'']"
proof -
  define g1 where "g1 = snd (randint 50 200 g)"
  define g2 where "g2 = snd (randint 30 180 g1)"
  have d: "30 \<le> fst (randint 30 180 g1) \<and> fst (randint 30 180 g1) \<le> 180"
    by (rule randint_range) simp
  have c: "0.7 \<le> fst (uniform 0.7 0.9 g2) \<and> fst (uniform 0.7 0.9 g2) \<le> 0.9"
    by (rule uniform_range) simp
  show ?thesis using d c
    by (simp add: predict_case_outcome_def Let_def split_def g1_def g2_def)
qed

end
